theory Spec2Isabelle
  imports Complex_Main
begin

section \<open>JavaScript values\<close>

text \<open>
  The server is JavaScript. A number that passed \<open>Joi.number()\<close> is finite, so it is a
  \<^typ>\<open>real\<close> here (rounding to a double is not modelled); its truthiness is being
  different from zero. The result of a division of two counters can also be \<open>NaN\<close> or
  \<open>Infinity\<close>, which \<open>jsnum\<close> adds. A time is the clock's milliseconds; the ISO-8601
  string that \<open>new Date().toISOString()\<close> makes of it is kept as the time itself
  (\<open>JIso\<close>).
\<close>

datatype jsnum = Num real | NaN | Infinity

datatype jsval =
    JNull
  | JBool bool
  | JNum real
  | JStr string
  | JIso nat
  | JArr "jsval list"
  | JObj "(string \<times> jsval) list"

type_synonym jsobj = "string \<rightharpoonup> jsval"

text \<open>\<open>if (x)\<close> on a number, on an optional number and on an optional string.\<close>

definition truthy_real :: "real \<Rightarrow> bool" where
  "truthy_real x = (x \<noteq> 0)"

fun truthy_jsnum :: "jsnum \<Rightarrow> bool" where
  "truthy_jsnum (Num x) = truthy_real x"
| "truthy_jsnum NaN = False"
| "truthy_jsnum Infinity = True"

fun truthy_num :: "real option \<Rightarrow> bool" where
  "truthy_num None = False"
| "truthy_num (Some x) = truthy_real x"

fun truthy_str :: "string option \<Rightarrow> bool" where
  "truthy_str None = False"
| "truthy_str (Some s) = (s \<noteq> [])"

text \<open>\<open>a / b\<close> on two counters (non-negative integers), and \<open>x || y\<close> on numbers.\<close>

definition js_div :: "nat \<Rightarrow> nat \<Rightarrow> jsnum" where
  "js_div a b =
     (if b = 0 then (if a = 0 then NaN else Infinity) else Num (real a / real b))"

definition js_or :: "jsnum \<Rightarrow> jsnum \<Rightarrow> jsnum" where
  "js_or x y = (if truthy_jsnum x then x else y)"

text \<open>\<open>s.split(',')\<close> and \<open>t.trim()\<close> (the ASCII white space).\<close>

fun split_on :: "char \<Rightarrow> string \<Rightarrow> string list" where
  "split_on c [] = [[]]"
| "split_on c (x # xs) =
     (if x = c then [] # split_on c xs
      else (case split_on c xs of
              [] \<Rightarrow> [[x]]
            | w # ws \<Rightarrow> (x # w) # ws))"

definition is_space :: "char \<Rightarrow> bool" where
  "is_space c = (c \<in> set [CHR '' '', CHR 0x09, CHR 0x0A, CHR 0x0B, CHR 0x0C, CHR 0x0D])"

definition trim :: "string \<Rightarrow> string" where
  "trim s = rev (dropWhile is_space (rev (dropWhile is_space s)))"

section \<open>Validation schemas\<close>

text \<open>
  The schemas are Joi objects. What Joi does with them is the library's documented
  default behaviour: keys are checked in the order of the schema and the first
  violation is the error (\<open>abortEarly\<close>); \<open>Joi.string()\<close> refuses the empty string;
  \<open>valid(...)\<close> refuses any value outside its list; a number is converted from its text
  and then checked by its rules in their order; a key the schema does not name is
  refused; \<open>default(v)\<close> fills in an absent key. Each error carries the key it is about.
\<close>

datatype joi_error =
    AnyRequired string
  | AnyOnly string
  | StringEmpty string
  | StringUri string
  | NumberBase string
  | NumberInteger string
  | NumberMin string
  | NumberMax string
  | ObjectUnknown string

text \<open>A numeric query parameter: text that converts to a number, or any other text.\<close>

datatype numtext = Numeric real | NonNumeric

definition joi_string :: "string \<Rightarrow> string option \<Rightarrow> joi_error option" where
  "joi_string key v =
     (case v of
        None \<Rightarrow> None
      | Some s \<Rightarrow> if s = [] then Some (StringEmpty key) else None)"

definition joi_valid :: "string \<Rightarrow> string list \<Rightarrow> string option \<Rightarrow> joi_error option" where
  "joi_valid key allowed v =
     (case v of
        None \<Rightarrow> None
      | Some s \<Rightarrow> if s \<in> set allowed then None else Some (AnyOnly key))"

definition joi_range :: "string \<Rightarrow> real \<Rightarrow> real \<Rightarrow> real \<Rightarrow> joi_error option" where
  "joi_range key lo hi x =
     (if x < lo then Some (NumberMin key)
      else if x > hi then Some (NumberMax key)
      else None)"

definition joi_number :: "string \<Rightarrow> real \<Rightarrow> real \<Rightarrow> numtext option \<Rightarrow> joi_error option" where
  "joi_number key lo hi v =
     (case v of
        None \<Rightarrow> None
      | Some NonNumeric \<Rightarrow> Some (NumberBase key)
      | Some (Numeric x) \<Rightarrow> joi_range key lo hi x)"

definition is_safe_integer :: "real \<Rightarrow> bool" where
  "is_safe_integer x = (real_of_int \<lfloor>x\<rfloor> = x \<and> \<bar>x\<bar> \<le> 2 ^ 53 - 1)"

definition joi_integer :: "string \<Rightarrow> real \<Rightarrow> real option \<Rightarrow> numtext option \<Rightarrow> joi_error option" where
  "joi_integer key lo hi v =
     (case v of
        None \<Rightarrow> None
      | Some NonNumeric \<Rightarrow> Some (NumberBase key)
      | Some (Numeric x) \<Rightarrow>
          if \<not> is_safe_integer x then Some (NumberInteger key)
          else if x < lo then Some (NumberMin key)
          else (case hi of
                  None \<Rightarrow> None
                | Some h \<Rightarrow> if x > h then Some (NumberMax key) else None))"

definition first_error :: "joi_error option list \<Rightarrow> joi_error option" where
  "first_error checks = (case List.map_filter id checks of [] \<Rightarrow> None | e # _ \<Rightarrow> Some e)"

fun the_number :: "numtext option \<Rightarrow> real option" where
  "the_number (Some (Numeric x)) = Some x"
| "the_number _ = None"

definition statuses :: "string list" where
  "statuses = [''active'', ''inactive'', ''maintenance'']"

subsection \<open>searchQuerySchema\<close>

text \<open>
  \<open>req.query\<close> as the query-string parser hands it over: every parameter is absent or a
  text (\<open>?q=\<close> gives the empty text); \<open>p_unknown\<close> lists the names of the parameters the
  schema does not have.
\<close>

record search_params =
  p_q :: "string option"
  p_tags :: "string option"
  p_status :: "string option"
  p_version :: "string option"
  p_city :: "string option"
  p_country :: "string option"
  p_lat :: "numtext option"
  p_lon :: "numtext option"
  p_page :: "numtext option"
  p_perPage :: "numtext option"
  p_sort :: "string option"
  p_unknown :: "string list"

text \<open>The validated \<open>value\<close>, with the defaults filled in.\<close>

record search_value =
  q :: "string option"
  q_tags :: "string option"
  q_status :: "string option"
  q_version :: "string option"
  q_city :: "string option"
  q_country :: "string option"
  lat :: "real option"
  lon :: "real option"
  page :: int
  perPage :: int
  sort_by :: string

definition sorts :: "string list" where
  "sorts = [''relevance'', ''name'', ''updatedAt'', ''distance'']"

definition searchQuerySchema :: "search_params \<Rightarrow> joi_error + search_value" where
  "searchQuerySchema p =
     (case first_error
        [joi_string ''q'' (p_q p),
         joi_string ''tags'' (p_tags p),
         joi_valid ''status'' statuses (p_status p),
         joi_string ''version'' (p_version p),
         joi_string ''city'' (p_city p),
         joi_string ''country'' (p_country p),
         joi_number ''lat'' (- 90) 90 (p_lat p),
         joi_number ''lon'' (- 180) 180 (p_lon p),
         joi_integer ''page'' 1 None (p_page p),
         joi_integer ''perPage'' 1 (Some 100) (p_perPage p),
         joi_valid ''sort'' sorts (p_sort p),
         (case p_unknown p of [] \<Rightarrow> None | k # _ \<Rightarrow> Some (ObjectUnknown k))]
      of
        Some e \<Rightarrow> Inl e
      | None \<Rightarrow>
          Inr \<lparr> q = p_q p, q_tags = p_tags p, q_status = p_status p,
                q_version = p_version p, q_city = p_city p, q_country = p_country p,
                lat = the_number (p_lat p), lon = the_number (p_lon p),
                page = (case the_number (p_page p) of None \<Rightarrow> 1 | Some x \<Rightarrow> \<lfloor>x\<rfloor>),
                perPage = (case the_number (p_perPage p) of None \<Rightarrow> 20 | Some x \<Rightarrow> \<lfloor>x\<rfloor>),
                sort_by = (case p_sort p of None \<Rightarrow> ''relevance'' | Some s \<Rightarrow> s) \<rparr>)"

section \<open>The search request sent to the index\<close>

datatype must_clause = MultiMatch string

datatype filter_clause =
    TermsTags "string list"
  | TermStatus string
  | TermVersion string

text \<open>
  The three sort clauses the handlers build: \<open>_geo_distance\<close> from a point (ascending,
  in km), \<open>name.keyword\<close> ascending, \<open>updatedAt\<close> descending.
\<close>

datatype sort_clause =
    GeoDistance real real
  | NameKeyword
  | UpdatedAt

datatype es_query =
    MatchAll
  | Bool "must_clause list" "filter_clause list"

record search_body =
  query :: es_query
  sortClause :: "sort_clause list"
  es_from :: int
  es_size :: int

text \<open>The handler of \<open>GET /search\<close> between validation and \<open>client.search\<close>.\<close>

definition must :: "search_value \<Rightarrow> must_clause list" where
  "must v = (if truthy_str (q v) then [MultiMatch (the (q v))] else [])"

definition filter_clauses :: "search_value \<Rightarrow> filter_clause list" where
  "filter_clauses v =
     (if truthy_str (q_tags v) then [TermsTags (map trim (split_on CHR '','' (the (q_tags v))))] else [])
     @ (if truthy_str (q_status v) then [TermStatus (the (q_status v))] else [])
     @ (if truthy_str (q_version v) then [TermVersion (the (q_version v))] else [])"

definition geo_sorted :: "search_value \<Rightarrow> bool" where
  "geo_sorted v = (truthy_num (lat v) \<and> truthy_num (lon v))"

definition sort_clauses :: "search_value \<Rightarrow> sort_clause list" where
  "sort_clauses v =
     (if geo_sorted v then [GeoDistance (the (lat v)) (the (lon v))] else [])
     @ (if sort_by v = ''name'' then [NameKeyword]
        else if sort_by v = ''updatedAt'' then [UpdatedAt]
        else if \<not> truthy_str (q v) then [UpdatedAt]
        else [])"

definition search_request :: "search_value \<Rightarrow> search_body" where
  "search_request v =
     \<lparr> query = Bool (must v) (filter_clauses v),
       sortClause = sort_clauses v,
       es_from = (page v - 1) * perPage v,
       es_size = perPage v \<rparr>"

section \<open>Agent records\<close>

text \<open>
  \<open>location.coordinates\<close> is the object \<open>{lat, lon}\<close> in a registration and the array the
  handler makes of it in the stored document; the record is polymorphic in it.
\<close>

datatype latlon = LatLon real real

fun lat_of :: "latlon \<Rightarrow> real" where
  "lat_of (LatLon la lo) = la"

fun lon_of :: "latlon \<Rightarrow> real" where
  "lon_of (LatLon la lo) = lo"

record 'c location =
  coordinates :: 'c
  city :: "string option"
  country :: "string option"

record 'c agent_value =
  agentId :: string
  name :: string
  description :: string
  url :: string
  tags :: "string list"
  status :: string
  version :: string
  capabilities :: string
  location :: "'c location option"

record agent_doc = "real list agent_value" +
  updatedAt :: nat

text \<open>The coordinates as they appear in a JSON body.\<close>

fun json_of_latlon :: "latlon \<Rightarrow> jsval" where
  "json_of_latlon (LatLon la lo) = JObj [(''lat'', JNum la), (''lon'', JNum lo)]"

definition json_of_array :: "real list \<Rightarrow> jsval" where
  "json_of_array xs = JArr (map JNum xs)"

subsection \<open>agentRegistrationSchema\<close>

text \<open>
  \<open>req.body\<close>, a JSON object: every key is absent or holds a value of the type the schema
  asks for (a body with a value of another type is refused by Joi and is not part of
  this model); \<open>r_unknown\<close> lists the keys the schema does not have. Whether a text is a
  URI is Joi's \<open>uri()\<close> rule, taken as a parameter.
\<close>

record raw_location =
  l_coordinates :: "(real option \<times> real option) option"
  l_city :: "string option"
  l_country :: "string option"

record registration =
  r_agentId :: "string option"
  r_name :: "string option"
  r_description :: "string option"
  r_url :: "string option"
  r_tags :: "string list option"
  r_status :: "string option"
  r_version :: "string option"
  r_capabilities :: "string option"
  r_location :: "raw_location option"
  r_unknown :: "string list"

definition joi_required_string :: "string \<Rightarrow> string option \<Rightarrow> joi_error option" where
  "joi_required_string key v =
     (case v of
        None \<Rightarrow> Some (AnyRequired key)
      | Some s \<Rightarrow> if s = [] then Some (StringEmpty key) else None)"

definition joi_uri :: "(string \<Rightarrow> bool) \<Rightarrow> string \<Rightarrow> string option \<Rightarrow> joi_error option" where
  "joi_uri is_uri key v =
     (case v of
        None \<Rightarrow> Some (AnyRequired key)
      | Some s \<Rightarrow>
          if s = [] then Some (StringEmpty key)
          else if \<not> is_uri s then Some (StringUri key)
          else None)"

definition joi_strings :: "string \<Rightarrow> string list option \<Rightarrow> joi_error option" where
  "joi_strings key v =
     (case v of
        None \<Rightarrow> None
      | Some xs \<Rightarrow> if [] \<in> set xs then Some (StringEmpty key) else None)"

definition joi_required_number :: "string \<Rightarrow> real \<Rightarrow> real \<Rightarrow> real option \<Rightarrow> joi_error option" where
  "joi_required_number key lo hi v =
     (case v of
        None \<Rightarrow> Some (AnyRequired key)
      | Some x \<Rightarrow> joi_range key lo hi x)"

definition joi_location :: "raw_location option \<Rightarrow> joi_error option" where
  "joi_location v =
     (case v of
        None \<Rightarrow> None
      | Some l \<Rightarrow>
          first_error
            [(case l_coordinates l of
                None \<Rightarrow> Some (AnyRequired ''location.coordinates'')
              | Some (la, lo) \<Rightarrow>
                  first_error
                    [joi_required_number ''location.coordinates.lat'' (- 90) 90 la,
                     joi_required_number ''location.coordinates.lon'' (- 180) 180 lo]),
             joi_string ''location.city'' (l_city l),
             joi_string ''location.country'' (l_country l)])"

text \<open>
  The validated value is built only when every check has passed: the required keys are
  then present and a location has both coordinates, so \<open>the\<close> below reads a value that
  is there and the last case of \<open>value_location\<close> is never taken.
\<close>

definition value_location :: "raw_location \<Rightarrow> latlon location" where
  "value_location l =
     \<lparr> coordinates =
         (case l_coordinates l of
            Some (Some la, Some lo) \<Rightarrow> LatLon la lo
          | _ \<Rightarrow> LatLon 0 0),
       city = l_city l,
       country = l_country l \<rparr>"

definition agentRegistrationSchema ::
  "(string \<Rightarrow> bool) \<Rightarrow> registration \<Rightarrow> joi_error + latlon agent_value" where
  "agentRegistrationSchema is_uri r =
     (case first_error
        [joi_required_string ''agentId'' (r_agentId r),
         joi_required_string ''name'' (r_name r),
         joi_required_string ''description'' (r_description r),
         joi_uri is_uri ''url'' (r_url r),
         joi_strings ''tags'' (r_tags r),
         joi_valid ''status'' statuses (r_status r),
         joi_string ''version'' (r_version r),
         joi_string ''capabilities'' (r_capabilities r),
         joi_location (r_location r),
         (case r_unknown r of [] \<Rightarrow> None | k # _ \<Rightarrow> Some (ObjectUnknown k))]
      of
        Some e \<Rightarrow> Inl e
      | None \<Rightarrow>
          Inr \<lparr> agentId = the (r_agentId r),
                name = the (r_name r),
                description = the (r_description r),
                url = the (r_url r),
                tags = (case r_tags r of None \<Rightarrow> [] | Some xs \<Rightarrow> xs),
                status = (case r_status r of None \<Rightarrow> ''active'' | Some x \<Rightarrow> x),
                version = (case r_version r of None \<Rightarrow> ''1.0.0'' | Some x \<Rightarrow> x),
                capabilities = (case r_capabilities r of None \<Rightarrow> [] | Some x \<Rightarrow> x),
                location = map_option value_location (r_location r) \<rparr>)"

text \<open>
  \<open>agentData\<close>: the validated value spread into a new object with \<open>updatedAt\<close>, then the
  coordinates replaced by the array \<open>[lon, lat]\<close> when there is a location.
\<close>

definition transform_coordinates :: "latlon location \<Rightarrow> real list location" where
  "transform_coordinates l =
     \<lparr> coordinates = [lon_of (coordinates l), lat_of (coordinates l)],
       city = city l,
       country = country l \<rparr>"

definition agentData :: "latlon agent_value \<Rightarrow> nat \<Rightarrow> agent_doc" where
  "agentData v time =
     \<lparr> agentId = agentId v,
       name = name v,
       description = description v,
       url = url v,
       tags = tags v,
       status = status v,
       version = version v,
       capabilities = capabilities v,
       location = map_option transform_coordinates (location v),
       updatedAt = time \<rparr>"

section \<open>The document index\<close>

text \<open>
  The index is Elasticsearch, reached through \<open>client\<close>. Its documented contract, as far
  as the handlers depend on it: a document is kept under its id, and indexing under an
  id that exists replaces the document; \<open>get\<close> by id is real-time and reads the documents
  as written; a search reads the view that the last refresh made (the engine also
  refreshes by itself from time to time, which is a \<open>es_refresh\<close> step of the
  environment between two requests); \<open>get\<close> and \<open>delete\<close> of an id that is not there fail
  with status 404; a search with a negative \<open>from\<close> or \<open>size\<close> fails with status 400;
  when the engine cannot be reached every call fails without a status.
\<close>

record es_index =
  docs :: "string \<rightharpoonup> agent_doc"
  searchable :: "string \<rightharpoonup> agent_doc"

datatype es_error = ResponseError nat | ConnectionError

definition es_index_doc :: "bool \<Rightarrow> string \<Rightarrow> agent_doc \<Rightarrow> es_index \<Rightarrow> es_error + es_index" where
  "es_index_doc up i d ix =
     (if \<not> up then Inl ConnectionError
      else Inr (ix\<lparr>docs := (docs ix)(i \<mapsto> d)\<rparr>))"

definition es_refresh :: "bool \<Rightarrow> es_index \<Rightarrow> es_error + es_index" where
  "es_refresh up ix =
     (if \<not> up then Inl ConnectionError
      else Inr (ix\<lparr>searchable := docs ix\<rparr>))"

definition es_get :: "bool \<Rightarrow> string \<Rightarrow> es_index \<Rightarrow> es_error + agent_doc" where
  "es_get up i ix =
     (if \<not> up then Inl ConnectionError
      else (case docs ix i of
              None \<Rightarrow> Inl (ResponseError 404)
            | Some d \<Rightarrow> Inr d))"

definition es_delete :: "bool \<Rightarrow> string \<Rightarrow> es_index \<Rightarrow> es_error + es_index" where
  "es_delete up i ix =
     (if \<not> up then Inl ConnectionError
      else (case docs ix i of
              None \<Rightarrow> Inl (ResponseError 404)
            | Some d \<Rightarrow> Inr (ix\<lparr>docs := (docs ix)(i := None)\<rparr>)))"

text \<open>
  The handlers index a document under its own \<open>agentId\<close>, so in every state they reach
  each document sits under the id it carries.
\<close>

definition keyed_by_id :: "(string \<rightharpoonup> agent_doc) \<Rightarrow> bool" where
  "keyed_by_id m = (\<forall>j d. m j = Some d \<longrightarrow> agentId d = j)"

text \<open>
  Matching, ranking, paging and counting are the engine's own and are a parameter: from
  the request and the searchable view it gives the page of matching documents, each with
  its score (\<open>None\<close> for \<open>null\<close>), the total and the aggregations. A hit carries the
  field \<open>sort\<close> when the request has at least one sort clause: the document's value
  for each clause, in the order of the clauses. The value for \<open>name.keyword\<close> is the
  name, for \<open>updatedAt\<close> the time in milliseconds, and for \<open>_geo_distance\<close> the distance
  the engine computes (a parameter).
\<close>

record engine_result =
  matched :: "(agent_doc \<times> jsnum option) list"
  total_value :: nat
  aggs :: jsval

record hit =
  h_source :: agent_doc
  h_score :: "jsnum option"
  h_sort :: "jsval list option"

record search_result =
  result_hits :: "hit list"
  result_total :: nat
  result_aggregations :: jsval

text \<open>
  What is outside the server: the clock, Joi's URI rule, whether the index can be
  reached, the engine's matching and distance, and the agents' own endpoints
  (\<open>origin u\<close> is the JSON object that \<open>axios.get(u)\<close> returns within the timeout,
  \<open>None\<close> when the request fails).
\<close>

record env =
  now :: nat
  is_uri :: "string \<Rightarrow> bool"
  es_up :: bool
  engine :: "search_body \<Rightarrow> (string \<rightharpoonup> agent_doc) \<Rightarrow> engine_result"
  geo_km :: "real \<Rightarrow> real \<Rightarrow> agent_doc \<Rightarrow> jsval"
  origin :: "string \<Rightarrow> jsobj option"

fun sort_value :: "env \<Rightarrow> sort_clause \<Rightarrow> agent_doc \<Rightarrow> jsval" where
  "sort_value e (GeoDistance la lo) d = geo_km e la lo d"
| "sort_value e NameKeyword d = JStr (name d)"
| "sort_value e UpdatedAt d = JNum (real (updatedAt d))"

definition es_hit :: "env \<Rightarrow> search_body \<Rightarrow> agent_doc \<times> jsnum option \<Rightarrow> hit" where
  "es_hit e body m =
     \<lparr> h_source = fst m,
       h_score = snd m,
       h_sort = (if sortClause body = [] then None
                 else Some (map (\<lambda>c. sort_value e c (fst m)) (sortClause body))) \<rparr>"

definition es_search :: "env \<Rightarrow> search_body \<Rightarrow> es_index \<Rightarrow> es_error + search_result" where
  "es_search e body ix =
     (if \<not> es_up e then Inl ConnectionError
      else if es_from body < 0 \<or> es_size body < 0 then Inl (ResponseError 400)
      else
        (let r = engine e body (searchable ix) in
         Inr \<lparr> result_hits = map (es_hit e body) (matched r),
               result_total = total_value r,
               result_aggregations = aggs r \<rparr>))"

section \<open>The card cache\<close>

text \<open>
  \<open>agentCache\<close> is a NodeCache with \<open>stdTTL\<close> 300 seconds: an entry holds its value and
  the time it expires at, in milliseconds; \<open>get\<close> answers an entry that has not expired
  and removes one that has; \<open>set\<close> stores the value under the standard time to live.
  The periodic check removes expired entries, which no \<open>get\<close> can tell apart from
  their removal by \<open>get\<close> itself, so it has no step here.
\<close>

record cache_entry =
  entry_v :: jsobj
  entry_t :: nat

type_synonym node_cache = "string \<rightharpoonup> cache_entry"

definition stdTTL :: nat where
  "stdTTL = 300"

definition cache_get :: "nat \<Rightarrow> string \<Rightarrow> node_cache \<Rightarrow> jsobj option \<times> node_cache" where
  "cache_get time key c =
     (case c key of
        None \<Rightarrow> (None, c)
      | Some x \<Rightarrow>
          if entry_t x \<noteq> 0 \<and> entry_t x < time then (None, c(key := None))
          else (Some (entry_v x), c))"

definition cache_set :: "nat \<Rightarrow> string \<Rightarrow> jsobj \<Rightarrow> node_cache \<Rightarrow> node_cache" where
  "cache_set time key val c = c(key \<mapsto> \<lparr> entry_v = val, entry_t = time + stdTTL * 1000 \<rparr>)"

definition cache_del :: "string \<Rightarrow> node_cache \<Rightarrow> node_cache" where
  "cache_del key c = c(key := None)"

definition flushAll :: node_cache where
  "flushAll = Map.empty"

record cache_stats =
  hits :: nat
  misses :: nat
  size_stat :: nat

definition hitRate :: "cache_stats \<Rightarrow> jsnum" where
  "hitRate cs = js_or (js_div (hits cs) (hits cs + misses cs)) (Num 0)"

definition cacheKey :: "string \<Rightarrow> string" where
  "cacheKey i = ''agentcard:'' @ i"

section \<open>The handlers\<close>

record state =
  es :: es_index
  agentCache :: node_cache
  cacheStats :: cache_stats

text \<open>
  A failure is the response's status with what its body identifies: 400 with the
  schema's error, 404, 500, and 503 (of \<open>/agentcard\<close>, with the agent's id and URL, and of
  \<open>/health\<close>).
\<close>

datatype failure =
    BadRequest joi_error
  | NotFound
  | ServerError
  | CardUnavailable string string
  | Unhealthy

definition catch_404 :: "es_error \<Rightarrow> failure" where
  "catch_404 err = (if err = ResponseError 404 then NotFound else ServerError)"

subsection \<open>POST /registry\<close>

definition post_registry :: "env \<Rightarrow> registration \<Rightarrow> state \<Rightarrow> (failure + string) \<times> state" where
  "post_registry e body s =
     (case agentRegistrationSchema (is_uri e) body of
        Inl err \<Rightarrow> (Inl (BadRequest err), s)
      | Inr v \<Rightarrow>
          (let d = agentData v (now e) in
           case es_index_doc (es_up e) (agentId d) d (es s) of
             Inl err \<Rightarrow> (Inl ServerError, s)
           | Inr ix \<Rightarrow>
               (let s1 = s\<lparr>es := ix,
                           agentCache := cache_del (cacheKey (agentId d)) (agentCache s)\<rparr> in
                case es_refresh (es_up e) ix of
                  Inl err \<Rightarrow> (Inl ServerError, s1)
                | Inr ix' \<Rightarrow> (Inr (agentId d), s1\<lparr>es := ix'\<rparr>))))"

subsection \<open>GET /agents\<close>

text \<open>
  \<open>parseInt(x) || d\<close>, on the result of \<open>parseInt\<close> (\<open>None\<close> for \<open>NaN\<close>);
  \<open>Math.ceil(total / perPage)\<close>.
\<close>

definition or_default :: "int option \<Rightarrow> int \<Rightarrow> int" where
  "or_default x d = (case x of None \<Rightarrow> d | Some n \<Rightarrow> if n = 0 then d else n)"

definition totalPages_of :: "nat \<Rightarrow> int \<Rightarrow> int" where
  "totalPages_of n per = \<lceil>real n / real_of_int per\<rceil>"

record pagination_info =
  pg_page :: int
  pg_perPage :: int
  pg_total :: nat
  pg_totalPages :: int

definition pagination_of :: "int \<Rightarrow> int \<Rightarrow> nat \<Rightarrow> pagination_info" where
  "pagination_of pg per n =
     \<lparr> pg_page = pg, pg_perPage = per, pg_total = n, pg_totalPages = totalPages_of n per \<rparr>"

definition list_request :: "int \<Rightarrow> int \<Rightarrow> search_body" where
  "list_request pg per =
     \<lparr> query = MatchAll, sortClause = [UpdatedAt], es_from = (pg - 1) * per, es_size = per \<rparr>"

definition get_agents ::
  "env \<Rightarrow> int option \<Rightarrow> int option \<Rightarrow> state
     \<Rightarrow> failure + (agent_doc \<times> jsnum option) list \<times> pagination_info" where
  "get_agents e req_page req_perPage s =
     (let pg = or_default req_page 1; per = or_default req_perPage 20 in
      case es_search e (list_request pg per) (es s) of
        Inl err \<Rightarrow> Inl ServerError
      | Inr result \<Rightarrow>
          Inr (map (\<lambda>h. (h_source h, h_score h)) (result_hits result),
               pagination_of pg per (result_total result)))"

subsection \<open>GET /agent/:agentId and DELETE /agent/:agentId\<close>

definition get_agent :: "env \<Rightarrow> string \<Rightarrow> state \<Rightarrow> failure + agent_doc" where
  "get_agent e i s =
     (case es_get (es_up e) i (es s) of
        Inl err \<Rightarrow> Inl (catch_404 err)
      | Inr d \<Rightarrow> Inr d)"

definition delete_agent :: "env \<Rightarrow> string \<Rightarrow> state \<Rightarrow> (failure + unit) \<times> state" where
  "delete_agent e i s =
     (case es_delete (es_up e) i (es s) of
        Inl err \<Rightarrow> (Inl (catch_404 err), s)
      | Inr ix \<Rightarrow>
          (Inr (), s\<lparr>es := ix, agentCache := cache_del (cacheKey i) (agentCache s)\<rparr>))"

subsection \<open>GET /search\<close>

text \<open>
  The request also asks for the term counts of \<open>tags\<close> and \<open>status\<close>, always the same
  two; they come back as the result's aggregations.
\<close>

record search_agent =
  a_source :: agent_doc
  a_score :: "jsnum option"
  a_distance :: "jsval option"

text \<open>\<open>hit.sort?.[0]\<close>: absent when the hit has no \<open>sort\<close> or an empty one.\<close>

definition first_sort :: "hit \<Rightarrow> jsval option" where
  "first_sort h =
     (case h_sort h of
        None \<Rightarrow> None
      | Some xs \<Rightarrow> (case xs of [] \<Rightarrow> None | x # _ \<Rightarrow> Some x))"

definition shape_hit :: "hit \<Rightarrow> search_agent" where
  "shape_hit h = \<lparr> a_source = h_source h, a_score = h_score h, a_distance = first_sort h \<rparr>"

record search_response =
  agents :: "search_agent list"
  pagination :: pagination_info
  aggregations :: jsval

definition get_search :: "env \<Rightarrow> search_params \<Rightarrow> state \<Rightarrow> failure + search_response" where
  "get_search e params s =
     (case searchQuerySchema params of
        Inl err \<Rightarrow> Inl (BadRequest err)
      | Inr v \<Rightarrow>
          (case es_search e (search_request v) (es s) of
             Inl err \<Rightarrow> Inl ServerError
           | Inr result \<Rightarrow>
               Inr \<lparr> agents = map shape_hit (result_hits result),
                     pagination = pagination_of (page v) (perPage v) (result_total result),
                     aggregations = result_aggregations result \<rparr>))"

subsection \<open>GET /agentcard/:agentId\<close>

definition bump_hits :: "cache_stats \<Rightarrow> cache_stats" where
  "bump_hits cs = cs\<lparr>hits := hits cs + 1\<rparr>"

definition bump_misses :: "cache_stats \<Rightarrow> cache_stats" where
  "bump_misses cs = cs\<lparr>misses := misses cs + 1\<rparr>"

definition card_url :: "agent_doc \<Rightarrow> string" where
  "card_url d = url d @ ''/.well-known/agent.json''"

definition fresh_card :: "jsobj \<Rightarrow> string \<Rightarrow> nat \<Rightarrow> jsobj" where
  "fresh_card data i time =
     data(''agentId'' \<mapsto> JStr i, ''cached'' \<mapsto> JBool False, ''fetchTimestamp'' \<mapsto> JIso time)"

definition cached_card :: "jsobj \<Rightarrow> jsobj" where
  "cached_card agentCard =
     agentCard(''cached'' \<mapsto> JBool True, ''fetchTimestamp'' := agentCard ''fetchTimestamp'')"

definition get_agentcard :: "env \<Rightarrow> string \<Rightarrow> state \<Rightarrow> (failure + jsobj) \<times> state" where
  "get_agentcard e i s =
     (case cache_get (now e) (cacheKey i) (agentCache s) of
        (Some agentCard, c) \<Rightarrow>
          (Inr (cached_card agentCard), s\<lparr>agentCache := c, cacheStats := bump_hits (cacheStats s)\<rparr>)
      | (None, c) \<Rightarrow>
          (let s1 = s\<lparr>agentCache := c, cacheStats := bump_misses (cacheStats s)\<rparr> in
           case es_get (es_up e) i (es s1) of
             Inl err \<Rightarrow> (Inl (catch_404 err), s1)
           | Inr metadata \<Rightarrow>
               (case origin e (card_url metadata) of
                  None \<Rightarrow> (Inl (CardUnavailable i (url metadata)), s1)
                | Some data \<Rightarrow>
                    (let agentCard = fresh_card data i (now e) in
                     (Inr agentCard,
                      s1\<lparr>agentCache :=
                           cache_set (now e) (cacheKey i) agentCard (agentCache s1)\<rparr>)))))"

subsection \<open>GET /cache/status, POST /cache/clear and GET /health\<close>

text \<open>
  Both reports give the two counters and the hit rate; the figures they pass on from
  NodeCache's own statistics (\<open>vsize\<close>, \<open>keys\<close>, \<open>ksize\<close>) and the cluster's health
  fields are left out.
\<close>

record cache_report =
  rep_hits :: nat
  rep_misses :: nat
  rep_hitRate :: jsnum

definition cache_report_of :: "cache_stats \<Rightarrow> cache_report" where
  "cache_report_of cs = \<lparr> rep_hits = hits cs, rep_misses = misses cs, rep_hitRate = hitRate cs \<rparr>"

definition get_cache_status :: "state \<Rightarrow> cache_report" where
  "get_cache_status s = cache_report_of (cacheStats s)"

definition post_cache_clear :: "state \<Rightarrow> state" where
  "post_cache_clear s =
     s\<lparr>agentCache := flushAll, cacheStats := \<lparr> hits = 0, misses = 0, size_stat = 0 \<rparr>\<rparr>"

definition get_health :: "env \<Rightarrow> state \<Rightarrow> failure + cache_report" where
  "get_health e s =
     (if \<not> es_up e then Inl Unhealthy else Inr (cache_report_of (cacheStats s)))"

section \<open>Concrete requests\<close>

text \<open>
  The state the server starts in, a search without parameters, the registration of the
  repository's example agent, and an environment for them: an index that can be reached,
  whose engine answers every request with the one example agent when the searchable view
  has it.
\<close>

definition initial_state :: state where
  "initial_state =
     \<lparr> es = \<lparr> docs = Map.empty, searchable = Map.empty \<rparr>,
       agentCache = Map.empty,
       cacheStats = \<lparr> hits = 0, misses = 0, size_stat = 0 \<rparr> \<rparr>"

definition no_params :: search_params where
  "no_params =
     \<lparr> p_q = None, p_tags = None, p_status = None, p_version = None, p_city = None,
       p_country = None, p_lat = None, p_lon = None, p_page = None, p_perPage = None,
       p_sort = None, p_unknown = [] \<rparr>"

definition weather_agent :: registration where
  "weather_agent =
     \<lparr> r_agentId = Some ''weather-agent-001'',
       r_name = Some ''Weather Assistant'',
       r_description = Some ''Provides real-time weather information'',
       r_url = Some ''http://localhost:3001'',
       r_tags = Some [''weather'', ''forecast''],
       r_status = Some ''active'',
       r_version = Some ''1.0.0'',
       r_capabilities = Some ''Weather queries, forecasts'',
       r_location = Some \<lparr> l_coordinates = Some (Some 40.7128, Some (- 74.006)),
                           l_city = None, l_country = None \<rparr>,
       r_unknown = [] \<rparr>"

definition only_engine :: "string \<Rightarrow> search_body \<Rightarrow> (string \<rightharpoonup> agent_doc) \<Rightarrow> engine_result" where
  "only_engine i body view =
     (case view i of
        None \<Rightarrow> \<lparr> matched = [], total_value = 0, aggs = JNull \<rparr>
      | Some d \<Rightarrow> \<lparr> matched = [(d, None)], total_value = 1, aggs = JNull \<rparr>)"

definition local_env :: "nat \<Rightarrow> (string \<Rightarrow> jsobj option) \<Rightarrow> env" where
  "local_env time org =
     \<lparr> now = time,
       is_uri = (\<lambda>u. take 7 u = ''http://''),
       es_up = True,
       engine = only_engine ''weather-agent-001'',
       geo_km = (\<lambda>la lo d. JNum 0),
       origin = org \<rparr>"

definition unreachable :: "string \<Rightarrow> jsobj option" where
  "unreachable u = None"

text \<open>
  The example agent's state after its registration at time 1000; its card and an origin
  that serves it; a second registration under the same id, with another name, status
  and version and without tags and location.
\<close>

definition registered :: state where
  "registered = snd (post_registry (local_env 1000 unreachable) weather_agent initial_state)"

definition weather_card :: jsobj where
  "weather_card =
     [''name'' \<mapsto> JStr ''Weather Assistant'',
      ''endpoints'' \<mapsto> JObj [(''process'', JStr ''/process'')]]"

definition weather_origin :: "string \<Rightarrow> jsobj option" where
  "weather_origin u =
     (if u = ''http://localhost:3001/.well-known/agent.json'' then Some weather_card else None)"

definition weather_agent_again :: registration where
  "weather_agent_again =
     weather_agent\<lparr>r_name := Some ''Weather Oracle'', r_tags := None,
                   r_status := Some ''maintenance'', r_version := Some ''2.0.0'',
                   r_location := None\<rparr>"

text \<open>
  The document that the example registration stores, and the state after its card was
  fetched at time 1500.
\<close>

definition weather_doc :: agent_doc where
  "weather_doc =
     \<lparr> agentId = ''weather-agent-001'',
       name = ''Weather Assistant'',
       description = ''Provides real-time weather information'',
       url = ''http://localhost:3001'',
       tags = [''weather'', ''forecast''],
       status = ''active'',
       version = ''1.0.0'',
       capabilities = ''Weather queries, forecasts'',
       location = Some \<lparr> coordinates = [- 74.006, 40.7128], city = None, country = None \<rparr>,
       updatedAt = 1000 \<rparr>"

definition fetched :: state where
  "fetched = snd (get_agentcard (local_env 1500 weather_origin) ''weather-agent-001'' registered)"

section \<open>What the handlers do to the state\<close>

lemmas joi_defs = first_error_def joi_string_def joi_valid_def joi_number_def joi_range_def
  joi_integer_def List.map_filter_def statuses_def sorts_def joi_required_string_def
  joi_uri_def joi_strings_def joi_required_number_def joi_location_def

lemma local_env_sel [simp]:
  "now (local_env t org) = t"
  "es_up (local_env t org)"
  "origin (local_env t org) = org"
  "engine (local_env t org) = only_engine ''weather-agent-001''"
  by (simp_all add: local_env_def)

subsection \<open>Validation\<close>

lemma first_error_Nil: "first_error [] = None"
  by (simp add: first_error_def List.map_filter_def)

lemma first_error_Cons:
  "first_error (c # cs) = (case c of None \<Rightarrow> first_error cs | Some x \<Rightarrow> Some x)"
  by (simp add: first_error_def List.map_filter_def split: option.splits)

lemma first_error_None: "first_error cs = None \<longleftrightarrow> (\<forall>c \<in> set cs. c = None)"
  by (induction cs) (auto simp: first_error_Nil first_error_Cons split: option.splits)

lemma schema_q: "searchQuerySchema p = Inr v \<Longrightarrow> q v = p_q p"
  unfolding searchQuerySchema_def
  by (cases "first_error
        [joi_string ''q'' (p_q p),
         joi_string ''tags'' (p_tags p),
         joi_valid ''status'' statuses (p_status p),
         joi_string ''version'' (p_version p),
         joi_string ''city'' (p_city p),
         joi_string ''country'' (p_country p),
         joi_number ''lat'' (- 90) 90 (p_lat p),
         joi_number ''lon'' (- 180) 180 (p_lon p),
         joi_integer ''page'' 1 None (p_page p),
         joi_integer ''perPage'' 1 (Some 100) (p_perPage p),
         joi_valid ''sort'' sorts (p_sort p),
         (case p_unknown p of [] \<Rightarrow> None | k # _ \<Rightarrow> Some (ObjectUnknown k))]") auto

lemma schema_empty_q: "p_q p = Some [] \<Longrightarrow> searchQuerySchema p = Inl (StringEmpty ''q'')"
  by (simp add: searchQuerySchema_def first_error_def joi_string_def List.map_filter_def)

lemma joi_required_string_None:
  "joi_required_string key x = None \<Longrightarrow> \<exists>y. x = Some y \<and> y \<noteq> []"
  by (auto simp: joi_required_string_def split: option.splits if_splits)

lemma joi_uri_None:
  "joi_uri f key x = None \<Longrightarrow> \<exists>y. x = Some y \<and> y \<noteq> [] \<and> f y"
  by (auto simp: joi_uri_def split: option.splits if_splits)

text \<open>The validated value of a registration, field by field.\<close>

lemma registration_value:
  assumes "agentRegistrationSchema f r = Inr v"
  shows "r_agentId r = Some (agentId v) \<and> r_name r = Some (name v)
     \<and> r_description r = Some (description v) \<and> r_url r = Some (url v)
     \<and> tags v = (case r_tags r of None \<Rightarrow> [] | Some xs \<Rightarrow> xs)
     \<and> status v = (case r_status r of None \<Rightarrow> ''active'' | Some x \<Rightarrow> x)
     \<and> version v = (case r_version r of None \<Rightarrow> ''1.0.0'' | Some x \<Rightarrow> x)
     \<and> capabilities v = (case r_capabilities r of None \<Rightarrow> [] | Some x \<Rightarrow> x)
     \<and> location v = map_option value_location (r_location r)"
proof -
  let ?checks = "[joi_required_string ''agentId'' (r_agentId r),
         joi_required_string ''name'' (r_name r),
         joi_required_string ''description'' (r_description r),
         joi_uri f ''url'' (r_url r),
         joi_strings ''tags'' (r_tags r),
         joi_valid ''status'' statuses (r_status r),
         joi_string ''version'' (r_version r),
         joi_string ''capabilities'' (r_capabilities r),
         joi_location (r_location r),
         (case r_unknown r of [] \<Rightarrow> None | k # _ \<Rightarrow> Some (ObjectUnknown k))]"
  from assms have none: "first_error ?checks = None"
    unfolding agentRegistrationSchema_def by (cases "first_error ?checks") simp_all
  with assms have v: "v = \<lparr> agentId = the (r_agentId r),
                name = the (r_name r),
                description = the (r_description r),
                url = the (r_url r),
                tags = (case r_tags r of None \<Rightarrow> [] | Some xs \<Rightarrow> xs),
                status = (case r_status r of None \<Rightarrow> ''active'' | Some x \<Rightarrow> x),
                version = (case r_version r of None \<Rightarrow> ''1.0.0'' | Some x \<Rightarrow> x),
                capabilities = (case r_capabilities r of None \<Rightarrow> [] | Some x \<Rightarrow> x),
                location = map_option value_location (r_location r) \<rparr>"
    unfolding agentRegistrationSchema_def by simp
  from none have a: "joi_required_string ''agentId'' (r_agentId r) = None"
    and b: "joi_required_string ''name'' (r_name r) = None"
    and c: "joi_required_string ''description'' (r_description r) = None"
    and d: "joi_uri f ''url'' (r_url r) = None"
    by (simp_all add: first_error_None)
  from joi_required_string_None [OF a] joi_required_string_None [OF b]
    joi_required_string_None [OF c] joi_uri_None [OF d] v
  show ?thesis by auto
qed

text \<open>A location that passed the schema has both coordinates.\<close>

lemma joi_location_None:
  "joi_location (Some l) = None \<Longrightarrow> \<exists>la lo. l_coordinates l = Some (Some la, Some lo)"
  by (auto simp: joi_location_def first_error_Cons first_error_Nil joi_required_number_def
      split: option.splits prod.splits)

lemma registration_location:
  assumes "agentRegistrationSchema f r = Inr v" and "r_location r = Some l"
  shows "\<exists>la lo. l_coordinates l = Some (Some la, Some lo)"
proof -
  let ?checks = "[joi_required_string ''agentId'' (r_agentId r),
         joi_required_string ''name'' (r_name r),
         joi_required_string ''description'' (r_description r),
         joi_uri f ''url'' (r_url r),
         joi_strings ''tags'' (r_tags r),
         joi_valid ''status'' statuses (r_status r),
         joi_string ''version'' (r_version r),
         joi_string ''capabilities'' (r_capabilities r),
         joi_location (r_location r),
         (case r_unknown r of [] \<Rightarrow> None | k # _ \<Rightarrow> Some (ObjectUnknown k))]"
  from assms(1) have "first_error ?checks = None"
    unfolding agentRegistrationSchema_def by (cases "first_error ?checks") simp_all
  then have "joi_location (r_location r) = None" by (simp add: first_error_None)
  with assms(2) show ?thesis by (simp add: joi_location_None)
qed

lemma weather_value:
  "agentRegistrationSchema (is_uri (local_env t org)) weather_agent = Inr
     \<lparr> agentId = ''weather-agent-001'',
       name = ''Weather Assistant'',
       description = ''Provides real-time weather information'',
       url = ''http://localhost:3001'',
       tags = [''weather'', ''forecast''],
       status = ''active'',
       version = ''1.0.0'',
       capabilities = ''Weather queries, forecasts'',
       location = Some \<lparr> coordinates = LatLon 40.7128 (- 74.006), city = None, country = None \<rparr> \<rparr>"
  by (simp add: agentRegistrationSchema_def weather_agent_def local_env_def joi_defs
      value_location_def)

lemma weather_again_value:
  "agentRegistrationSchema (is_uri (local_env t org)) weather_agent_again = Inr
     \<lparr> agentId = ''weather-agent-001'',
       name = ''Weather Oracle'',
       description = ''Provides real-time weather information'',
       url = ''http://localhost:3001'',
       tags = [],
       status = ''maintenance'',
       version = ''2.0.0'',
       capabilities = ''Weather queries, forecasts'',
       location = None \<rparr>"
  by (simp add: agentRegistrationSchema_def weather_agent_again_def weather_agent_def
      local_env_def joi_defs)

subsection \<open>Registration and deletion\<close>

text \<open>A registration that succeeds, and what it leaves behind.\<close>

lemma post_registry_Inr:
  assumes "post_registry e r s = (Inr i, s')"
  shows "\<exists>v. agentRegistrationSchema (is_uri e) r = Inr v \<and> i = agentId v \<and> es_up e \<and>
           s' = s\<lparr>es := \<lparr> docs = (docs (es s))(i \<mapsto> agentData v (now e)),
                           searchable = (docs (es s))(i \<mapsto> agentData v (now e)) \<rparr>,
                  agentCache := (agentCache s)(cacheKey i := None)\<rparr>"
  using assms
  by (auto simp: post_registry_def es_index_doc_def es_refresh_def cache_del_def Let_def
      agentData_def split: sum.splits if_splits)

lemma post_registry_valid:
  assumes "agentRegistrationSchema (is_uri e) r = Inr v" and "es_up e"
  shows "post_registry e r s =
           (Inr (agentId v),
            s\<lparr>es := \<lparr> docs = (docs (es s))(agentId v \<mapsto> agentData v (now e)),
                       searchable = (docs (es s))(agentId v \<mapsto> agentData v (now e)) \<rparr>,
              agentCache := (agentCache s)(cacheKey (agentId v) := None)\<rparr>)"
  using assms
  by (simp add: post_registry_def es_index_doc_def es_refresh_def cache_del_def Let_def
      agentData_def)

text \<open>A deletion never touches the searchable view.\<close>

lemma delete_agent_searchable:
  "searchable (es (snd (delete_agent e i s))) = searchable (es s)"
  by (simp add: delete_agent_def es_delete_def split: option.splits)

lemma delete_agent_Inr:
  assumes "delete_agent e i s = (Inr u, s')"
  shows "es_up e \<and> docs (es s) i \<noteq> None \<and>
         s' = s\<lparr>es := (es s)\<lparr>docs := (docs (es s))(i := None)\<rparr>,
                agentCache := (agentCache s)(cacheKey i := None)\<rparr>"
  using assms
  by (auto simp: delete_agent_def es_delete_def cache_del_def split: option.splits if_splits)

text \<open>A search reads the searchable view only, so no deletion changes its answer.\<close>

lemma es_search_view:
  "searchable ix = searchable ix' \<Longrightarrow> es_search e body ix = es_search e body ix'"
  by (simp add: es_search_def)

lemma es_search_after_delete:
  "es_search e body (es (snd (delete_agent e' i s))) = es_search e body (es s)"
  by (rule es_search_view) (rule delete_agent_searchable)

lemma delete_not_seen_by_list:
  "get_agents e pg per (snd (delete_agent e' i s)) = get_agents e pg per s"
  by (simp add: get_agents_def es_search_after_delete)

lemma delete_not_seen_by_search:
  "get_search e p (snd (delete_agent e' i s)) = get_search e p s"
  by (simp add: get_search_def es_search_after_delete cong: sum.case_cong)

lemma registered_eq:
  "post_registry (local_env 1000 unreachable) weather_agent initial_state
     = (Inr ''weather-agent-001'', registered)"
  by (simp add: registered_def post_registry_valid [OF weather_value])

lemma registered_state:
  "registered =
     \<lparr> es = \<lparr> docs = [''weather-agent-001'' \<mapsto> weather_doc],
              searchable = [''weather-agent-001'' \<mapsto> weather_doc] \<rparr>,
       agentCache = Map.empty,
       cacheStats = \<lparr> hits = 0, misses = 0, size_stat = 0 \<rparr> \<rparr>"
  by (simp add: registered_def post_registry_valid [OF weather_value] initial_state_def
      agentData_def transform_coordinates_def weather_doc_def)

lemma registered_get: "es_get True ''weather-agent-001'' (es registered) = Inr weather_doc"
  by (simp add: registered_state es_get_def)

lemma registered_miss:
  "fst (cache_get t (cacheKey ''weather-agent-001'') (agentCache registered)) = None"
  by (simp add: registered_state cache_get_def)

lemma weather_doc_card_url:
  "card_url weather_doc = ''http://localhost:3001/.well-known/agent.json''"
  by (simp add: card_url_def weather_doc_def)

subsection \<open>The cache and the card handler\<close>

lemma cache_get_miss_cache:
  "fst (cache_get t k c) = None \<Longrightarrow> snd (cache_get t k c) = c(k := None)"
  by (auto simp: cache_get_def split: option.splits if_splits)

lemma cache_get_hit_cache:
  "fst (cache_get t k c) = Some x \<Longrightarrow> snd (cache_get t k c) = c"
  by (auto simp: cache_get_def split: option.splits if_splits)

text \<open>An entry that \<open>get\<close> removed had expired, so no later \<open>get\<close> misses it.\<close>

lemma cache_get_after_miss:
  assumes "fst (cache_get t k c) = None" and "t \<le> t'"
  shows "fst (cache_get t' k' (c(k := None))) = fst (cache_get t' k' c)"
  using assms by (auto simp: cache_get_def split: option.splits if_splits)

lemma cache_get_set:
  "t' \<le> t + stdTTL * 1000 \<Longrightarrow> cache_get t' k (cache_set t k x c) = (Some x, cache_set t k x c)"
  by (simp add: cache_get_def cache_set_def)

text \<open>The handler on a miss and on a hit.\<close>

lemma get_agentcard_miss:
  assumes "fst (cache_get (now e) (cacheKey i) (agentCache s)) = None"
  shows "get_agentcard e i s =
     (case es_get (es_up e) i (es s) of
        Inl err \<Rightarrow>
          (Inl (catch_404 err),
           s\<lparr>agentCache := (agentCache s)(cacheKey i := None),
             cacheStats := bump_misses (cacheStats s)\<rparr>)
      | Inr metadata \<Rightarrow>
          (case origin e (card_url metadata) of
             None \<Rightarrow>
               (Inl (CardUnavailable i (url metadata)),
                s\<lparr>agentCache := (agentCache s)(cacheKey i := None),
                  cacheStats := bump_misses (cacheStats s)\<rparr>)
           | Some data \<Rightarrow>
               (Inr (fresh_card data i (now e)),
                s\<lparr>agentCache := cache_set (now e) (cacheKey i) (fresh_card data i (now e))
                                   ((agentCache s)(cacheKey i := None)),
                  cacheStats := bump_misses (cacheStats s)\<rparr>)))"
proof -
  obtain c where c: "cache_get (now e) (cacheKey i) (agentCache s) = (None, c)"
    using assms by (cases "cache_get (now e) (cacheKey i) (agentCache s)") simp
  with cache_get_miss_cache [OF assms] have "c = (agentCache s)(cacheKey i := None)" by simp
  with c show ?thesis
    by (simp add: get_agentcard_def Let_def split: sum.splits option.splits)
qed

lemma get_agentcard_hit:
  assumes "fst (cache_get (now e) (cacheKey i) (agentCache s)) = Some x"
  shows "get_agentcard e i s =
     (Inr (cached_card x), s\<lparr>cacheStats := bump_hits (cacheStats s)\<rparr>)"
proof -
  obtain c where c: "cache_get (now e) (cacheKey i) (agentCache s) = (Some x, c)"
    using assms by (cases "cache_get (now e) (cacheKey i) (agentCache s)") simp
  with cache_get_hit_cache [OF assms] have "c = agentCache s" by simp
  with c show ?thesis by (simp add: get_agentcard_def)
qed

lemma fetched_state:
  "fetched = registered
     \<lparr>agentCache := [cacheKey ''weather-agent-001'' \<mapsto>
         \<lparr> entry_v = fresh_card weather_card ''weather-agent-001'' 1500, entry_t = 301500 \<rparr>],
      cacheStats := \<lparr> hits = 0, misses = 1, size_stat = 0 \<rparr>\<rparr>"
proof -
  let ?e = "local_env 1500 weather_origin"
  have m: "fst (cache_get (now ?e) (cacheKey ''weather-agent-001'') (agentCache registered)) = None"
    by (simp add: registered_miss)
  have "get_agentcard ?e ''weather-agent-001'' registered =
     (Inr (fresh_card weather_card ''weather-agent-001'' 1500),
      registered\<lparr>agentCache :=
                   cache_set 1500 (cacheKey ''weather-agent-001'')
                     (fresh_card weather_card ''weather-agent-001'' 1500)
                     ((agentCache registered)(cacheKey ''weather-agent-001'' := None)),
                 cacheStats := bump_misses (cacheStats registered)\<rparr>)"
    by (subst get_agentcard_miss [OF m])
       (simp add: registered_get weather_doc_card_url weather_origin_def)
  then show ?thesis
    by (simp add: fetched_def registered_state cache_set_def stdTTL_def bump_misses_def)
qed

lemma fetched_hit:
  "t \<le> 301500 \<Longrightarrow>
   fst (cache_get t (cacheKey ''weather-agent-001'') (agentCache fetched))
     = Some (fresh_card weather_card ''weather-agent-001'' 1500)"
  by (simp add: fetched_state cache_get_def)

section \<open>The sort clauses of a search\<close>

text \<open>
  With both coordinates supplied, the distance clause is there, and first, exactly when
  neither coordinate is zero.
\<close>

lemma geo_clause_first_iff:
  assumes "lat v = Some a" and "lon v = Some b"
  shows "(\<exists>rest. sort_clauses v = GeoDistance a b # rest) \<longleftrightarrow> a \<noteq> 0 \<and> b \<noteq> 0"
  using assms by (auto simp: sort_clauses_def geo_sorted_def truthy_real_def)

text \<open>
  C1. Both coordinates supplied should put the ascending distance from the point first
  among the sort clauses, zero included. Evaluated at
  \<open>GET /search?lat=0&lon=10&sort=distance\<close> (a point on the equator): the request is
  valid, and the only sort clause sent to the index is \<open>updatedAt\<close> descending; there is
  no distance clause, because \<open>if (lat && lon)\<close> takes the number 0 for an absent one.
\<close>

theorem search_lat_zero_not_geo_sorted:
  "\<exists>v. searchQuerySchema
          (no_params\<lparr>p_lat := Some (Numeric 0), p_lon := Some (Numeric 10),
                     p_sort := Some ''distance''\<rparr>) = Inr v
       \<and> lat v = Some 0 \<and> lon v = Some 10
       \<and> sortClause (search_request v) = [UpdatedAt]"
  by (simp add: searchQuerySchema_def no_params_def joi_defs search_request_def
      sort_clauses_def geo_sorted_def truthy_real_def)

section \<open>Visibility of writes\<close>

text \<open>
  C2. Both write paths should force a refresh, so that a list or search issued after a
  deletion no longer shows the agent. Evaluated on the example agent: it is registered
  (which refreshes), then deleted with success; reading it by id now fails with 404, yet
  \<open>GET /agents\<close> still lists it, because the handler of \<open>DELETE /agent/:agentId\<close> never
  refreshes the index and the searchable view is the one the registration left.
\<close>

theorem deleted_agent_still_listed:
  "\<exists>s1 s2 d pg.
     post_registry (local_env 1000 unreachable) weather_agent initial_state
       = (Inr ''weather-agent-001'', s1)
   \<and> delete_agent (local_env 2000 unreachable) ''weather-agent-001'' s1 = (Inr (), s2)
   \<and> get_agent (local_env 3000 unreachable) ''weather-agent-001'' s2 = Inl NotFound
   \<and> get_agents (local_env 3000 unreachable) None None s2 = Inr ([(d, None)], pg)
   \<and> agentId d = ''weather-agent-001''"
  apply (simp add: post_registry_valid [OF weather_value])
  apply (simp add: delete_agent_def es_delete_def cache_del_def get_agent_def es_get_def
      catch_404_def get_agents_def es_search_def list_request_def or_default_def
      only_engine_def es_hit_def Let_def agentData_def)
  done

section \<open>The distance field of a hit\<close>

text \<open>
  Every hit of a search carries as \<open>distance\<close> the value of the first sort clause of
  the request, whichever clause that is, and no \<open>distance\<close> only when the request has
  no sort clause.
\<close>

lemma distance_is_first_sort_value:
  assumes "searchQuerySchema p = Inr v" and "get_search e p s = Inr r"
  shows "\<forall>a \<in> set (agents r).
           a_distance a = (case sort_clauses v of
                             [] \<Rightarrow> None
                           | c # _ \<Rightarrow> Some (sort_value e c (a_source a)))"
  using assms
  by (auto simp: get_search_def es_search_def search_request_def shape_hit_def first_sort_def
      es_hit_def Let_def split: if_splits list.splits)

text \<open>
  C3. A hit should carry \<open>distance\<close> only when the search was sorted by distance.
  Evaluated at \<open>GET /search?sort=name\<close>, without coordinates, on an index holding the
  example agent: the hit comes back with \<open>distance\<close> set to the agent's name, the value
  of its first sort clause, because the handler copies \<open>hit.sort[0]\<close> whatever the first
  clause is.
\<close>

theorem name_sorted_hit_has_distance:
  "\<exists>s1 r.
     post_registry (local_env 1000 unreachable) weather_agent initial_state
       = (Inr ''weather-agent-001'', s1)
   \<and> get_search (local_env 2000 unreachable) (no_params\<lparr>p_sort := Some ''name''\<rparr>) s1 = Inr r
   \<and> map a_distance (agents r) = [Some (JStr ''Weather Assistant'')]"
  apply (simp add: post_registry_valid [OF weather_value])
  apply (simp add: get_search_def searchQuerySchema_def no_params_def joi_defs
      search_request_def sort_clauses_def geo_sorted_def must_def filter_clauses_def
      es_search_def only_engine_def es_hit_def shape_hit_def first_sort_def agentData_def
      Let_def)
  done

section \<open>Empty text in a search\<close>

text \<open>
  C4, as the claim states it: a search whose text is the empty string is accepted. It is
  not: \<open>GET /search?q=&status=active\<close> fails validation, since \<open>q\<close> is a \<open>Joi.string()\<close>
  and that refuses the empty string.
\<close>

theorem empty_text_rejected:
  "searchQuerySchema (no_params\<lparr>p_q := Some [], p_status := Some ''active''\<rparr>)
     = Inl (StringEmpty ''q'')"
  by (simp add: schema_empty_q)

text \<open>
  C4, amended: a search whose text is the empty string is answered 400 with the schema's
  error for \<open>q\<close>, whatever its other parameters; a valid search whose text is absent is
  compiled with no must clause, so that its filters alone apply.
\<close>

theorem empty_text_invalid_absent_text_filters_only:
  "(p_q p = Some [] \<longrightarrow> get_search e p s = Inl (BadRequest (StringEmpty ''q'')))
   \<and> (p_q p = None \<longrightarrow> searchQuerySchema p = Inr v \<longrightarrow>
        query (search_request v) = Bool [] (filter_clauses v))"
  by (auto simp: get_search_def schema_empty_q search_request_def must_def dest: schema_q)

theorem empty_text_invalid_absent_text_filters_only_witness:
  "get_search (local_env 1000 unreachable)
      (no_params\<lparr>p_q := Some [], p_status := Some ''active''\<rparr>) initial_state
      = Inl (BadRequest (StringEmpty ''q''))
   \<and> (\<exists>v. searchQuerySchema (no_params\<lparr>p_status := Some ''active''\<rparr>) = Inr v
      \<and> query (search_request v) = Bool [] [TermStatus ''active''])"
proof -
  let ?p1 = "no_params\<lparr>p_q := Some [], p_status := Some ''active''\<rparr>"
  let ?p2 = "no_params\<lparr>p_status := Some ''active''\<rparr>"
  obtain v where v: "searchQuerySchema ?p2 = Inr v"
    and f: "filter_clauses v = [TermStatus ''active'']"
    by (simp add: searchQuerySchema_def no_params_def joi_defs filter_clauses_def)
  have a: "p_q ?p1 = Some []" by simp
  have b: "p_q ?p2 = None" by (simp add: no_params_def)
  from empty_text_invalid_absent_text_filters_only
         [of ?p1 "local_env 1000 unreachable" initial_state v] a
  have 1: "get_search (local_env 1000 unreachable) ?p1 initial_state
             = Inl (BadRequest (StringEmpty ''q''))"
    by blast
  from empty_text_invalid_absent_text_filters_only
         [of ?p2 "local_env 1000 unreachable" initial_state v] b v f
  have 2: "query (search_request v) = Bool [] [TermStatus ''active'']" by simp
  from 1 2 v show ?thesis by blast
qed

section \<open>Registering twice\<close>

text \<open>
  C5. Whatever the state before a registration that succeeds (in particular after an
  earlier registration under the same id, with any card cached for it since), the index
  then holds under that id one document, readable and searchable at once, and every
  field of it is this registration's: the id, name, description and URL as sent, the
  tags, status, version and capabilities as sent or else the schema's default, the
  location as sent with its coordinates as the array, no location when none was sent,
  and the time of this registration; nothing of what was there before remains. The
  documents under the other ids are as before, the card cache has no entry for the id,
  and, in an index where each document sits under the id it carries, no other document
  carries this id.
\<close>

theorem reregistration_replaces:
  assumes "post_registry e r s = (Inr i, s')"
  shows "\<exists>v d. agentRegistrationSchema (is_uri e) r = Inr v \<and> d = agentData v (now e)
     \<and> docs (es s') i = Some d
     \<and> searchable (es s') i = Some d
     \<and> (\<forall>e'. es_up e' \<longrightarrow> get_agent e' i s' = Inr d)
     \<and> (\<forall>j. j \<noteq> i \<longrightarrow> docs (es s') j = docs (es s) j)
     \<and> agentCache s' (cacheKey i) = None
     \<and> agentId d = i \<and> r_agentId r = Some i
     \<and> r_name r = Some (name d)
     \<and> r_description r = Some (description d)
     \<and> r_url r = Some (url d)
     \<and> tags d = (case r_tags r of None \<Rightarrow> [] | Some xs \<Rightarrow> xs)
     \<and> status d = (case r_status r of None \<Rightarrow> ''active'' | Some x \<Rightarrow> x)
     \<and> version d = (case r_version r of None \<Rightarrow> ''1.0.0'' | Some x \<Rightarrow> x)
     \<and> capabilities d = (case r_capabilities r of None \<Rightarrow> [] | Some x \<Rightarrow> x)
     \<and> (r_location r = None \<longrightarrow> location d = None)
     \<and> (\<forall>l. r_location r = Some l \<longrightarrow>
          (\<exists>la lo. l_coordinates l = Some (Some la, Some lo)
             \<and> location d = Some \<lparr> coordinates = [lo, la], city = l_city l,
                                   country = l_country l \<rparr>))
     \<and> updatedAt d = now e
     \<and> (keyed_by_id (docs (es s)) \<longrightarrow>
          keyed_by_id (docs (es s'))
          \<and> (\<forall>j d'. docs (es s') j = Some d' \<longrightarrow> agentId d' = i \<longrightarrow> j = i \<and> d' = d))"
proof -
  from post_registry_Inr [OF assms] obtain v where
    v: "agentRegistrationSchema (is_uri e) r = Inr v"
    and i: "i = agentId v"
    and s': "s' = s\<lparr>es := \<lparr> docs = (docs (es s))(i \<mapsto> agentData v (now e)),
                           searchable = (docs (es s))(i \<mapsto> agentData v (now e)) \<rparr>,
                  agentCache := (agentCache s)(cacheKey i := None)\<rparr>"
    by blast
  let ?d = "agentData v (now e)"
  note rv = registration_value [OF v]
  have st: "docs (es s') i = Some ?d \<and> searchable (es s') i = Some ?d
     \<and> (\<forall>e'. es_up e' \<longrightarrow> get_agent e' i s' = Inr ?d)
     \<and> (\<forall>j. j \<noteq> i \<longrightarrow> docs (es s') j = docs (es s) j)
     \<and> agentCache s' (cacheKey i) = None"
    using s' by (auto simp: get_agent_def es_get_def)
  have fl: "agentId ?d = i \<and> r_agentId r = Some i
     \<and> r_name r = Some (name ?d)
     \<and> r_description r = Some (description ?d)
     \<and> r_url r = Some (url ?d)
     \<and> tags ?d = (case r_tags r of None \<Rightarrow> [] | Some xs \<Rightarrow> xs)
     \<and> status ?d = (case r_status r of None \<Rightarrow> ''active'' | Some x \<Rightarrow> x)
     \<and> version ?d = (case r_version r of None \<Rightarrow> ''1.0.0'' | Some x \<Rightarrow> x)
     \<and> capabilities ?d = (case r_capabilities r of None \<Rightarrow> [] | Some x \<Rightarrow> x)
     \<and> updatedAt ?d = now e"
    using rv i by (simp add: agentData_def)
  have l0: "r_location r = None \<longrightarrow> location ?d = None"
    using rv by (simp add: agentData_def)
  have l1: "\<forall>l. r_location r = Some l \<longrightarrow>
          (\<exists>la lo. l_coordinates l = Some (Some la, Some lo)
             \<and> location ?d = Some \<lparr> coordinates = [lo, la], city = l_city l,
                                   country = l_country l \<rparr>)"
  proof (intro allI impI)
    fix l assume that: "r_location r = Some l"
    from registration_location [OF v that] obtain la lo
      where c: "l_coordinates l = Some (Some la, Some lo)" by blast
    with rv that have "location ?d = Some \<lparr> coordinates = [lo, la], city = l_city l,
                                   country = l_country l \<rparr>"
      by (simp add: agentData_def value_location_def transform_coordinates_def)
    with c show "\<exists>la lo. l_coordinates l = Some (Some la, Some lo)
             \<and> location ?d = Some \<lparr> coordinates = [lo, la], city = l_city l,
                                   country = l_country l \<rparr>" by blast
  qed
  have id: "agentId ?d = i" using fl by blast
  have dc: "docs (es s') = (docs (es s))(i \<mapsto> ?d)" using s' by simp
  have k: "keyed_by_id (docs (es s)) \<longrightarrow>
          keyed_by_id (docs (es s'))
          \<and> (\<forall>j d'. docs (es s') j = Some d' \<longrightarrow> agentId d' = i \<longrightarrow> j = i \<and> d' = ?d)"
    unfolding keyed_by_id_def dc using id by (auto split: if_splits)
  show ?thesis
    apply (rule exI [of _ v], rule exI [of _ ?d])
    apply (insert v st fl l0 l1 k)
    apply (intro conjI)
                        apply (blast | simp)+
    done
qed


text \<open>
  The example agent, registered with tags and a location and with its card in the
  cache, is registered again without them and under another name; and its first
  registration, which had a location.
\<close>

theorem reregistration_replaces_witness:
  "docs (es fetched) ''weather-agent-001'' = Some weather_doc
   \<and> agentCache fetched (cacheKey ''weather-agent-001'') \<noteq> None
   \<and> (\<exists>s'. post_registry (local_env 2000 unreachable) weather_agent_again fetched
               = (Inr ''weather-agent-001'', s')
        \<and> get_agent (local_env 3000 unreachable) ''weather-agent-001'' s'
            = Inr \<lparr> agentId = ''weather-agent-001'',
                    name = ''Weather Oracle'',
                    description = ''Provides real-time weather information'',
                    url = ''http://localhost:3001'',
                    tags = [],
                    status = ''maintenance'',
                    version = ''2.0.0'',
                    capabilities = ''Weather queries, forecasts'',
                    location = None,
                    updatedAt = 2000 \<rparr>
        \<and> docs (es s') ''weather-agent-002'' = None
        \<and> agentCache s' (cacheKey ''weather-agent-001'') = None)
   \<and> map_option location (docs (es registered) ''weather-agent-001'')
       = Some (Some \<lparr> coordinates = [- 74.006, 40.7128], city = None, country = None \<rparr>)"
proof -
  let ?e = "local_env 2000 unreachable" and ?i = "''weather-agent-001''"
  let ?r = weather_agent_again
  obtain s' where
    r: "post_registry ?e ?r fetched = (Inr ?i, s')"
    by (simp add: post_registry_valid [OF weather_again_value])
  from reregistration_replaces [OF r] obtain d where
    g: "\<forall>e'. es_up e' \<longrightarrow> get_agent e' ?i s' = Inr d"
    and o: "\<forall>j. j \<noteq> ?i \<longrightarrow> docs (es s') j = docs (es fetched) j"
    and c: "agentCache s' (cacheKey ?i) = None"
    and f1: "agentId d = ?i" "r_name ?r = Some (name d)"
      "r_description ?r = Some (description d)" "r_url ?r = Some (url d)"
    and f2: "tags d = (case r_tags ?r of None \<Rightarrow> [] | Some xs \<Rightarrow> xs)"
      "status d = (case r_status ?r of None \<Rightarrow> ''active'' | Some x \<Rightarrow> x)"
      "version d = (case r_version ?r of None \<Rightarrow> ''1.0.0'' | Some x \<Rightarrow> x)"
      "capabilities d = (case r_capabilities ?r of None \<Rightarrow> [] | Some x \<Rightarrow> x)"
    and f3: "r_location ?r = None \<longrightarrow> location d = None" "updatedAt d = now ?e"
    and k: "keyed_by_id (docs (es fetched)) \<longrightarrow>
          keyed_by_id (docs (es s'))
          \<and> (\<forall>j d'. docs (es s') j = Some d' \<longrightarrow> agentId d' = ?i \<longrightarrow> j = ?i \<and> d' = d)"
    apply (elim exE conjE)
    apply (rule that)
                apply assumption+
    done
  have deq: "d = \<lparr> agentId = ''weather-agent-001'',
                    name = ''Weather Oracle'',
                    description = ''Provides real-time weather information'',
                    url = ''http://localhost:3001'',
                    tags = [],
                    status = ''maintenance'',
                    version = ''2.0.0'',
                    capabilities = ''Weather queries, forecasts'',
                    location = None,
                    updatedAt = 2000 \<rparr>"
    using f1 f2 f3 by (cases d) (simp add: weather_agent_again_def weather_agent_def)
  have kf: "keyed_by_id (docs (es fetched))"
    by (simp add: keyed_by_id_def fetched_state registered_state weather_doc_def)
  with k have u: "\<forall>j d'. docs (es s') j = Some d' \<longrightarrow> agentId d' = ?i \<longrightarrow> j = ?i \<and> d' = d"
    and k': "keyed_by_id (docs (es s'))"
    by blast+
  from o have "docs (es s') ''weather-agent-002'' = docs (es fetched) ''weather-agent-002''"
    by simp
  then have n: "docs (es s') ''weather-agent-002'' = None"
    by (simp add: fetched_state registered_state)
  from g have 1: "get_agent (local_env 3000 unreachable) ?i s' = Inr d" by simp
  have 2: "docs (es fetched) ?i = Some weather_doc \<and> agentCache fetched (cacheKey ?i) \<noteq> None"
    by (simp add: fetched_state registered_state)
  have l: "r_location weather_agent
       = Some \<lparr> l_coordinates = Some (Some 40.7128, Some (- 74.006)),
                l_city = None, l_country = None \<rparr>"
    by (simp add: weather_agent_def)
  from reregistration_replaces [OF registered_eq] obtain d0 where
    d0: "docs (es registered) ?i = Some d0"
    and l0: "\<forall>l. r_location weather_agent = Some l \<longrightarrow>
          (\<exists>la lo. l_coordinates l = Some (Some la, Some lo)
             \<and> location d0 = Some \<lparr> coordinates = [lo, la], city = l_city l,
                                   country = l_country l \<rparr>)"
    apply (elim exE conjE)
    apply (rule that)
     apply assumption+
    done
  from l0 l have "location d0
      = Some \<lparr> coordinates = [- 74.006, 40.7128], city = None, country = None \<rparr>"
    by auto
  with d0 have 3: "map_option location (docs (es registered) ?i)
       = Some (Some \<lparr> coordinates = [- 74.006, 40.7128], city = None, country = None \<rparr>)"
    by simp
  from r 1 2 3 c n deq show ?thesis by auto
qed

section \<open>The stored coordinates\<close>

text \<open>
  C10. A successful registration whose location has the coordinates \<open>{lat, lon}\<close> leaves,
  under its id, a document whose coordinates are the array \<open>[lon, lat]\<close>, which is what
  reading by id returns and what the searchable view holds; as JSON the array differs
  from the object that was sent. The city and country, the four required fields and
  every optional field that was sent are stored as sent.
\<close>

theorem coordinates_stored_as_lon_lat_array:
  assumes ok: "post_registry e r s = (Inr i, s')"
    and loc: "r_location r = Some l"
    and co: "l_coordinates l = Some (Some la, Some lo)"
  shows "\<exists>d. docs (es s') i = Some d \<and> searchable (es s') i = Some d
     \<and> (\<forall>e'. es_up e' \<longrightarrow> get_agent e' i s' = Inr d)
     \<and> location d = Some \<lparr> coordinates = [lo, la], city = l_city l, country = l_country l \<rparr>
     \<and> json_of_array [lo, la] = JArr [JNum lo, JNum la]
     \<and> json_of_array [lo, la] \<noteq> json_of_latlon (LatLon la lo)
     \<and> r_agentId r = Some (agentId d) \<and> r_name r = Some (name d)
     \<and> r_description r = Some (description d) \<and> r_url r = Some (url d)
     \<and> (\<forall>x. r_tags r = Some x \<longrightarrow> tags d = x)
     \<and> (\<forall>x. r_status r = Some x \<longrightarrow> status d = x)
     \<and> (\<forall>x. r_version r = Some x \<longrightarrow> version d = x)
     \<and> (\<forall>x. r_capabilities r = Some x \<longrightarrow> capabilities d = x)"
proof -
  from post_registry_Inr [OF ok] obtain v where
    v: "agentRegistrationSchema (is_uri e) r = Inr v"
    and s': "s' = s\<lparr>es := \<lparr> docs = (docs (es s))(i \<mapsto> agentData v (now e)),
                           searchable = (docs (es s))(i \<mapsto> agentData v (now e)) \<rparr>,
                  agentCache := (agentCache s)(cacheKey i := None)\<rparr>"
    by blast
  let ?d = "agentData v (now e)"
  have l: "location ?d = Some \<lparr> coordinates = [lo, la], city = l_city l, country = l_country l \<rparr>"
    using registration_value [OF v] loc co
    by (simp add: agentData_def value_location_def transform_coordinates_def)
  have f: "r_agentId r = Some (agentId ?d) \<and> r_name r = Some (name ?d)
     \<and> r_description r = Some (description ?d) \<and> r_url r = Some (url ?d)
     \<and> (\<forall>x. r_tags r = Some x \<longrightarrow> tags ?d = x)
     \<and> (\<forall>x. r_status r = Some x \<longrightarrow> status ?d = x)
     \<and> (\<forall>x. r_version r = Some x \<longrightarrow> version ?d = x)
     \<and> (\<forall>x. r_capabilities r = Some x \<longrightarrow> capabilities ?d = x)"
    using registration_value [OF v] by (simp add: agentData_def)
  have j: "json_of_array [lo, la] = JArr [JNum lo, JNum la]
     \<and> json_of_array [lo, la] \<noteq> json_of_latlon (LatLon la lo)"
    by (simp add: json_of_array_def)
  have g: "docs (es s') i = Some ?d \<and> searchable (es s') i = Some ?d
     \<and> (\<forall>e'. es_up e' \<longrightarrow> get_agent e' i s' = Inr ?d)"
    using s' by (simp add: get_agent_def es_get_def)
  from g l f j show ?thesis by blast
qed

theorem coordinates_stored_as_lon_lat_array_witness:
  "post_registry (local_env 1000 unreachable) weather_agent initial_state
     = (Inr ''weather-agent-001'', registered)
   \<and> r_location weather_agent
       = Some \<lparr> l_coordinates = Some (Some 40.7128, Some (- 74.006)),
                l_city = None, l_country = None \<rparr>
   \<and> (\<exists>d. get_agent (local_env 2000 unreachable) ''weather-agent-001'' registered = Inr d
        \<and> map_option coordinates (location d) = Some [- 74.006, 40.7128]
        \<and> name d = ''Weather Assistant'' \<and> tags d = [''weather'', ''forecast''])"
proof -
  let ?l = "\<lparr> l_coordinates = Some (Some (40.7128::real), Some (- 74.006 :: real)),
              l_city = None, l_country = None \<rparr>"
  have l: "r_location weather_agent = Some ?l" by (simp add: weather_agent_def)
  have c: "l_coordinates ?l = Some (Some 40.7128, Some (- 74.006))" by simp
  from coordinates_stored_as_lon_lat_array [OF registered_eq l c]
  obtain d where
    d: "\<forall>e'. es_up e' \<longrightarrow> get_agent e' ''weather-agent-001'' registered = Inr d"
    and loc: "location d = Some \<lparr> coordinates = [- 74.006, 40.7128],
                                  city = l_city ?l, country = l_country ?l \<rparr>"
    and nm: "r_name weather_agent = Some (name d)"
    and tg: "\<forall>x. r_tags weather_agent = Some x \<longrightarrow> tags d = x"
    by blast
  from d have "get_agent (local_env 2000 unreachable) ''weather-agent-001'' registered = Inr d"
    by simp
  moreover from nm have "name d = ''Weather Assistant''" by (simp add: weather_agent_def)
  moreover from tg have "tags d = [''weather'', ''forecast'']" by (simp add: weather_agent_def)
  ultimately show ?thesis using loc l registered_eq by simp
qed

section \<open>Fetching a card through the cache\<close>

text \<open>
  C6. When the cache has no live entry for the id, the agent is in the index and the
  request to its origin fails, the answer is 503 with the agent's id and URL; the cache
  then has no entry for the id and answers every later lookup, of any key, as the cache
  before the call would have; the index is untouched; and a later call for the same id
  goes to the origin again: when the origin then answers, the call returns the fetched
  card.
\<close>

theorem failed_fetch_not_cached:
  assumes miss: "fst (cache_get (now e) (cacheKey i) (agentCache s)) = None"
    and found: "es_get (es_up e) i (es s) = Inr d"
    and failed: "origin e (card_url d) = None"
  shows "fst (get_agentcard e i s) = Inl (CardUnavailable i (url d))
     \<and> agentCache (snd (get_agentcard e i s)) (cacheKey i) = None
     \<and> (\<forall>t k. now e \<le> t \<longrightarrow>
          fst (cache_get t k (agentCache (snd (get_agentcard e i s))))
            = fst (cache_get t k (agentCache s)))
     \<and> es (snd (get_agentcard e i s)) = es s
     \<and> (\<forall>e' data. now e \<le> now e' \<longrightarrow> es_get (es_up e') i (es s) = Inr d \<longrightarrow>
          origin e' (card_url d) = Some data \<longrightarrow>
          fst (get_agentcard e' i (snd (get_agentcard e i s)))
            = Inr (fresh_card data i (now e')))"
proof -
  let ?s1 = "s\<lparr>agentCache := (agentCache s)(cacheKey i := None),
                 cacheStats := bump_misses (cacheStats s)\<rparr>"
  have r: "get_agentcard e i s = (Inl (CardUnavailable i (url d)), ?s1)"
    using found failed by (simp add: get_agentcard_miss [OF miss])
  have same: "fst (cache_get t k (agentCache ?s1)) = fst (cache_get t k (agentCache s))"
    if "now e \<le> t" for t k
    using cache_get_after_miss [OF miss that] by simp
  have again: "fst (get_agentcard e' i ?s1) = Inr (fresh_card data i (now e'))"
    if "now e \<le> now e'" "es_get (es_up e') i (es s) = Inr d"
      "origin e' (card_url d) = Some data"
    for e' data
  proof -
    have "fst (cache_get (now e') (cacheKey i) (agentCache ?s1)) = None"
      by (simp add: cache_get_def)
    from get_agentcard_miss [OF this] that show ?thesis by simp
  qed
  from r same again show ?thesis by simp
qed

theorem failed_fetch_not_cached_witness:
  "fst (cache_get 1500 (cacheKey ''weather-agent-001'') (agentCache registered)) = None
   \<and> es_get True ''weather-agent-001'' (es registered) = Inr weather_doc
   \<and> unreachable (card_url weather_doc) = None
   \<and> fst (get_agentcard (local_env 1500 unreachable) ''weather-agent-001'' registered)
       = Inl (CardUnavailable ''weather-agent-001'' ''http://localhost:3001'')
   \<and> agentCache
        (snd (get_agentcard (local_env 1500 unreachable) ''weather-agent-001'' registered))
        (cacheKey ''weather-agent-001'') = None
   \<and> fst (get_agentcard (local_env 1600 weather_origin) ''weather-agent-001''
        (snd (get_agentcard (local_env 1500 unreachable) ''weather-agent-001'' registered)))
       = Inr (fresh_card weather_card ''weather-agent-001'' 1600)"
proof -
  let ?e = "local_env 1500 unreachable" and ?e' = "local_env 1600 weather_origin"
  have a: "fst (cache_get (now ?e) (cacheKey ''weather-agent-001'') (agentCache registered))
             = None"
    by (simp add: registered_miss)
  have b: "es_get (es_up ?e) ''weather-agent-001'' (es registered) = Inr weather_doc"
    by (simp add: registered_get)
  have c: "origin ?e (card_url weather_doc) = None"
    by (simp add: unreachable_def)
  have b': "es_get (es_up ?e') ''weather-agent-001'' (es registered) = Inr weather_doc"
    by (simp add: registered_get)
  have c': "origin ?e' (card_url weather_doc) = Some weather_card"
    by (simp add: weather_doc_card_url weather_origin_def)
  have u: "url weather_doc = ''http://localhost:3001''" by (simp add: weather_doc_def)
  have n: "now ?e \<le> now ?e'" by simp
  note t = failed_fetch_not_cached [OF a b c]
  from t have 1: "fst (get_agentcard ?e ''weather-agent-001'' registered)
       = Inl (CardUnavailable ''weather-agent-001'' ''http://localhost:3001'')"
    using u by simp
  from t have 2: "agentCache (snd (get_agentcard ?e ''weather-agent-001'' registered))
        (cacheKey ''weather-agent-001'') = None" by blast
  from t n b' c' have 3: "fst (get_agentcard ?e' ''weather-agent-001''
        (snd (get_agentcard ?e ''weather-agent-001'' registered)))
       = Inr (fresh_card weather_card ''weather-agent-001'' (now ?e'))" by blast
  from 1 2 3 a b c show ?thesis by (simp add: unreachable_def)
qed

text \<open>
  C7. When the cache has no live entry for the id, the agent is in the index and its
  origin answers, the call returns the fetched card and stores it: the card has every
  key of the origin's answer with the value the origin gave, except that \<open>agentId\<close> is
  the id asked for, \<open>cached\<close> is false and \<open>fetchTimestamp\<close> is the time of the call. A
  second call for the id, at any time up to 300 seconds after the first, is answered
  from the cache (whatever the index and the origin do then) with the same card except
  that \<open>cached\<close> is true.
\<close>

theorem second_call_served_from_cache:
  assumes miss: "fst (cache_get (now e1) (cacheKey i) (agentCache s)) = None"
    and found: "es_get (es_up e1) i (es s) = Inr d"
    and answer: "origin e1 (card_url d) = Some data"
    and live: "now e2 \<le> now e1 + stdTTL * 1000"
  shows "\<exists>c1 s1. get_agentcard e1 i s = (Inr c1, s1)
     \<and> c1 = fresh_card data i (now e1)
     \<and> c1 ''cached'' = Some (JBool False)
     \<and> c1 ''agentId'' = Some (JStr i)
     \<and> c1 ''fetchTimestamp'' = Some (JIso (now e1))
     \<and> (\<forall>k. k \<noteq> ''agentId'' \<longrightarrow> k \<noteq> ''cached'' \<longrightarrow> k \<noteq> ''fetchTimestamp'' \<longrightarrow>
           c1 k = data k)
     \<and> fst (cache_get (now e2) (cacheKey i) (agentCache s1)) = Some c1
     \<and> fst (get_agentcard e2 i s1) = Inr (c1(''cached'' \<mapsto> JBool True))"
proof -
  let ?c1 = "fresh_card data i (now e1)"
  let ?s1 = "s\<lparr>agentCache :=
                   cache_set (now e1) (cacheKey i) ?c1 ((agentCache s)(cacheKey i := None)),
                 cacheStats := bump_misses (cacheStats s)\<rparr>"
  have r: "get_agentcard e1 i s = (Inr ?c1, ?s1)"
    using found answer by (simp add: get_agentcard_miss [OF miss])
  have g: "fst (cache_get (now e2) (cacheKey i) (agentCache ?s1)) = Some ?c1"
    using live by (simp add: cache_get_set)
  have "cached_card ?c1 = ?c1(''cached'' \<mapsto> JBool True)"
    by (auto simp: cached_card_def fresh_card_def)
  with get_agentcard_hit [OF g]
  have h: "fst (get_agentcard e2 i ?s1) = Inr (?c1(''cached'' \<mapsto> JBool True))"
    by simp
  have p: "?c1 ''cached'' = Some (JBool False) \<and> ?c1 ''agentId'' = Some (JStr i)
     \<and> ?c1 ''fetchTimestamp'' = Some (JIso (now e1))
     \<and> (\<forall>k. k \<noteq> ''agentId'' \<longrightarrow> k \<noteq> ''cached'' \<longrightarrow> k \<noteq> ''fetchTimestamp'' \<longrightarrow>
           ?c1 k = data k)"
    by (simp add: fresh_card_def)
  from r g h p show ?thesis by blast
qed

text \<open>
  On the example: the card that comes back has the name and the endpoints that the
  origin served, and the second call, 198.5 seconds later, returns them again.
\<close>

theorem second_call_served_from_cache_witness:
  "fst (cache_get 1500 (cacheKey ''weather-agent-001'') (agentCache registered)) = None
   \<and> es_get True ''weather-agent-001'' (es registered) = Inr weather_doc
   \<and> weather_origin (card_url weather_doc) = Some weather_card
   \<and> (200000::nat) \<le> 1500 + stdTTL * 1000
   \<and> (\<exists>c1 c2.
        fst (get_agentcard (local_env 1500 weather_origin) ''weather-agent-001'' registered)
          = Inr c1
      \<and> c1 ''name'' = Some (JStr ''Weather Assistant'')
      \<and> c1 ''endpoints'' = Some (JObj [(''process'', JStr ''/process'')])
      \<and> c1 ''agentId'' = Some (JStr ''weather-agent-001'')
      \<and> c1 ''cached'' = Some (JBool False)
      \<and> c1 ''fetchTimestamp'' = Some (JIso 1500)
      \<and> c1 ''examples'' = None
      \<and> fst (get_agentcard (local_env 200000 unreachable) ''weather-agent-001''
           (snd (get_agentcard (local_env 1500 weather_origin) ''weather-agent-001''
                  registered)))
          = Inr c2
      \<and> c2 = c1(''cached'' \<mapsto> JBool True)
      \<and> c2 ''name'' = Some (JStr ''Weather Assistant'')
      \<and> c2 ''cached'' = Some (JBool True))"
proof -
  let ?e1 = "local_env 1500 weather_origin" and ?e2 = "local_env 200000 unreachable"
  let ?i = "''weather-agent-001''"
  have a: "fst (cache_get (now ?e1) (cacheKey ?i) (agentCache registered)) = None"
    by (simp add: registered_miss)
  have b: "es_get (es_up ?e1) ?i (es registered) = Inr weather_doc"
    by (simp add: registered_get)
  have c: "origin ?e1 (card_url weather_doc) = Some weather_card"
    by (simp add: weather_doc_card_url weather_origin_def)
  have d: "now ?e2 \<le> now ?e1 + stdTTL * 1000"
    by (simp add: stdTTL_def)
  from second_call_served_from_cache [OF a b c d] obtain c1 s1 where
    r: "get_agentcard ?e1 ?i registered = (Inr c1, s1)"
    and p1: "c1 ''cached'' = Some (JBool False)"
    and p2: "c1 ''agentId'' = Some (JStr ?i)"
    and p3: "c1 ''fetchTimestamp'' = Some (JIso (now ?e1))"
    and p4: "\<forall>k. k \<noteq> ''agentId'' \<longrightarrow> k \<noteq> ''cached'' \<longrightarrow> k \<noteq> ''fetchTimestamp'' \<longrightarrow>
               c1 k = weather_card k"
    and h: "fst (get_agentcard ?e2 ?i s1) = Inr (c1(''cached'' \<mapsto> JBool True))"
    apply (elim exE conjE)
    apply (rule that)
         apply assumption+
    done
  from p4 have n: "c1 ''name'' = weather_card ''name''"
    and en: "c1 ''endpoints'' = weather_card ''endpoints''"
    and ex: "c1 ''examples'' = weather_card ''examples''"
    by simp_all
  from n en ex have q: "c1 ''name'' = Some (JStr ''Weather Assistant'')
      \<and> c1 ''endpoints'' = Some (JObj [(''process'', JStr ''/process'')])
      \<and> c1 ''examples'' = None"
    by (simp add: weather_card_def)
  from r have r1: "fst (get_agentcard ?e1 ?i registered) = Inr c1"
    and r2: "snd (get_agentcard ?e1 ?i registered) = s1"
    by simp_all
  from a b c d r1 r2 h p1 p2 p3 q show ?thesis
    by (simp add: weather_doc_card_url weather_origin_def stdTTL_def)
qed

section \<open>The cache counters\<close>

text \<open>
  C9. A call of \<open>GET /agentcard/:agentId\<close> that the cache does not answer adds exactly one
  to \<open>misses\<close> and leaves \<open>hits\<close>, whatever happens afterwards (the agent not in the
  index, the index out of reach, the origin failing or answering); a call that the cache
  answers leaves \<open>misses\<close>.
\<close>

theorem every_miss_counted_once:
  "(fst (cache_get (now e) (cacheKey i) (agentCache s)) = None \<longrightarrow>
      misses (cacheStats (snd (get_agentcard e i s))) = misses (cacheStats s) + 1
      \<and> hits (cacheStats (snd (get_agentcard e i s))) = hits (cacheStats s))
   \<and> (fst (cache_get (now e) (cacheKey i) (agentCache s)) \<noteq> None \<longrightarrow>
      misses (cacheStats (snd (get_agentcard e i s))) = misses (cacheStats s))"
proof (cases "fst (cache_get (now e) (cacheKey i) (agentCache s))")
  case None
  then show ?thesis
    by (simp add: get_agentcard_miss bump_misses_def split: sum.splits option.splits)
next
  case (Some x)
  then show ?thesis by (simp add: get_agentcard_hit bump_hits_def)
qed

text \<open>
  On the example: a card asked for an id that is not in the index (404), a card whose
  origin fails (503), and a card that the cache answers.
\<close>

theorem every_miss_counted_once_witness:
  "fst (cache_get 1000 (cacheKey ''weather-agent-001'') (agentCache initial_state)) = None
   \<and> fst (get_agentcard (local_env 1000 unreachable) ''weather-agent-001'' initial_state)
       = Inl NotFound
   \<and> misses (cacheStats
        (snd (get_agentcard (local_env 1000 unreachable) ''weather-agent-001'' initial_state)))
       = 1
   \<and> fst (get_agentcard (local_env 1500 unreachable) ''weather-agent-001'' registered)
       = Inl (CardUnavailable ''weather-agent-001'' ''http://localhost:3001'')
   \<and> misses (cacheStats
        (snd (get_agentcard (local_env 1500 unreachable) ''weather-agent-001'' registered)))
       = 1
   \<and> fst (cache_get 2000 (cacheKey ''weather-agent-001'') (agentCache fetched)) \<noteq> None
   \<and> misses (cacheStats fetched) = 1
   \<and> misses (cacheStats
        (snd (get_agentcard (local_env 2000 unreachable) ''weather-agent-001'' fetched)))
       = 1"
proof -
  let ?e = "local_env 1000 unreachable" and ?e' = "local_env 1500 unreachable"
    and ?e2 = "local_env 2000 unreachable"
  have a: "fst (cache_get (now ?e) (cacheKey ''weather-agent-001'') (agentCache initial_state))
             = None"
    by (simp add: initial_state_def cache_get_def)
  have a': "fst (cache_get (now ?e') (cacheKey ''weather-agent-001'') (agentCache registered))
              = None"
    by (simp add: registered_miss)
  have h: "fst (cache_get (now ?e2) (cacheKey ''weather-agent-001'') (agentCache fetched))
             \<noteq> None"
    by (simp add: fetched_hit)
  have r: "fst (get_agentcard ?e ''weather-agent-001'' initial_state) = Inl NotFound"
    by (subst get_agentcard_miss [OF a]) (simp add: es_get_def initial_state_def catch_404_def)
  have r': "fst (get_agentcard ?e' ''weather-agent-001'' registered)
       = Inl (CardUnavailable ''weather-agent-001'' ''http://localhost:3001'')"
    by (simp add: get_agentcard_miss [OF a'] registered_get unreachable_def weather_doc_def)
  from every_miss_counted_once [of ?e "''weather-agent-001''" initial_state] a
  have 1: "misses (cacheStats (snd (get_agentcard ?e ''weather-agent-001'' initial_state))) = 1"
    by (simp add: initial_state_def)
  from every_miss_counted_once [of ?e' "''weather-agent-001''" registered] a'
  have 2: "misses (cacheStats (snd (get_agentcard ?e' ''weather-agent-001'' registered))) = 1"
    by (simp add: registered_state)
  have m: "misses (cacheStats fetched) = 1" by (simp add: fetched_state)
  from every_miss_counted_once [of ?e2 "''weather-agent-001''" fetched] h m
  have 3: "misses (cacheStats (snd (get_agentcard ?e2 ''weather-agent-001'' fetched))) = 1"
    by simp
  from a r r' 1 2 3 h m show ?thesis by simp
qed

text \<open>
  C8. The hit rate that \<open>/cache/status\<close> and \<open>/health\<close> report is \<open>hits / (hits + misses)\<close>,
  and 0 when both counters are 0; it is never \<open>NaN\<close>.
\<close>

theorem hitRate_is_ratio_or_zero:
  "hitRate cs = (if hits cs + misses cs = 0 then Num 0
                 else Num (real (hits cs) / real (hits cs + misses cs)))
   \<and> hitRate cs \<noteq> NaN
   \<and> rep_hitRate (get_cache_status s) = hitRate (cacheStats s)
   \<and> (get_health e s = Inr r \<longrightarrow> rep_hitRate r = hitRate (cacheStats s))"
  by (auto simp: hitRate_def js_or_def js_div_def truthy_real_def get_cache_status_def
      cache_report_of_def get_health_def split: if_splits)

theorem hitRate_is_ratio_or_zero_witness:
  "hitRate (cacheStats initial_state) = Num 0
   \<and> hitRate \<lparr> hits = 3, misses = 1, size_stat = 0 \<rparr> = Num (3 / 4)
   \<and> get_health (local_env 1000 unreachable) initial_state
       = Inr \<lparr> rep_hits = 0, rep_misses = 0, rep_hitRate = Num 0 \<rparr>"
proof -
  let ?r = "\<lparr> rep_hits = 0, rep_misses = 0,
               rep_hitRate = hitRate (cacheStats initial_state) \<rparr>"
  have h: "get_health (local_env 1000 unreachable) initial_state = Inr ?r"
    by (simp add: get_health_def cache_report_of_def initial_state_def)
  from hitRate_is_ratio_or_zero [of "cacheStats initial_state"]
  have 1: "hitRate (cacheStats initial_state) = Num 0"
    by (simp add: initial_state_def)
  from hitRate_is_ratio_or_zero [of "\<lparr> hits = 3, misses = 1, size_stat = 0 \<rparr>"]
  have 2: "hitRate \<lparr> hits = 3, misses = 1, size_stat = 0 \<rparr> = Num (3 / 4)" by simp
  from hitRate_is_ratio_or_zero
         [of "cacheStats initial_state" initial_state "local_env 1000 unreachable" ?r] h
  have 3: "rep_hitRate ?r = hitRate (cacheStats initial_state)" by blast
  from h 1 2 3 show ?thesis by simp
qed

end
